theory Spec2Isabelle
  imports Main
begin

section \<open>Python strings\<close>

text \<open>
  A Python \<open>str\<close> is a sequence of Unicode code points, so a string is a list of
  code-point numbers. \<open>ustr\<close> reads an ASCII literal.
\<close>

type_synonym pystr = "nat list"

definition ustr :: "string \<Rightarrow> pystr" where
  "ustr s = map of_char s"

text \<open>
  The code points for which \<open>str.isspace\<close> holds. \<open>str.split()\<close>, \<open>str.strip()\<close> and
  the class \<open>\s\<close> of \<open>re\<close> on \<open>str\<close> patterns all use this set.
\<close>

definition py_isspace :: "nat \<Rightarrow> bool" where
  "py_isspace c \<longleftrightarrow>
     (9 \<le> c \<and> c \<le> 13) \<or> (28 \<le> c \<and> c \<le> 32) \<or> c = 133 \<or> c = 160 \<or> c = 5760 \<or>
     (8192 \<le> c \<and> c \<le> 8202) \<or> c = 8232 \<or> c = 8233 \<or> c = 8239 \<or> c = 8287 \<or> c = 12288"

definition is_ascii_upper :: "nat \<Rightarrow> bool" where
  "is_ascii_upper c \<longleftrightarrow> 65 \<le> c \<and> c \<le> 90"

definition is_ascii_lower :: "nat \<Rightarrow> bool" where
  "is_ascii_lower c \<longleftrightarrow> 97 \<le> c \<and> c \<le> 122"

text \<open>
  \<open>text.split()\<close>: the maximal runs of non-whitespace code points, in order. The first
  argument is the word being read.
\<close>

fun split_from :: "pystr \<Rightarrow> pystr \<Rightarrow> pystr list" where
  "split_from cur [] = (if cur = [] then [] else [cur])"
| "split_from cur (c # cs) =
     (if py_isspace c then (if cur = [] then split_from [] cs else cur # split_from [] cs)
      else split_from (cur @ [c]) cs)"

definition py_split :: "pystr \<Rightarrow> pystr list" where
  "py_split text = split_from [] text"

text \<open>\<open>sep.join(words)\<close>.\<close>

fun py_join :: "pystr \<Rightarrow> pystr list \<Rightarrow> pystr" where
  "py_join sep [] = []"
| "py_join sep [w] = w"
| "py_join sep (w # v # vs) = w @ sep @ py_join sep (v # vs)"

text \<open>\<open>text.strip()\<close>.\<close>

definition py_strip :: "pystr \<Rightarrow> pystr" where
  "py_strip text = rev (dropWhile py_isspace (rev (dropWhile py_isspace text)))"

text \<open>
  \<open>text.replace(old, new)\<close>: the occurrences of \<open>old\<close> are taken from the left and do
  not overlap.
\<close>

function str_replace :: "pystr \<Rightarrow> pystr \<Rightarrow> pystr \<Rightarrow> pystr" where
  "str_replace old new [] = (if old = [] then new else [])"
| "str_replace old new (c # cs) =
     (if old = [] then new @ c # str_replace old new cs
      else if take (length old) (c # cs) = old
        then new @ str_replace old new (drop (length old) (c # cs))
      else c # str_replace old new cs)"
  by pat_completeness auto
termination
  by (relation "measure (\<lambda>(old, new, s). length s)") auto

section \<open>The libraries and the runtime tables\<close>

text \<open>
  \<open>cleaning_functions.py\<close> calls four third-party packages and one Unicode table of the
  runtime. They are parameters of the model:
  \<^item> \<open>contractions_fix\<close> is \<open>contractions.fix\<close>;
  \<^item> \<open>html_unescape\<close> is \<open>html.unescape\<close>;
  \<^item> \<open>emoji_replace_emoji text r\<close> is \<open>emoji.replace_emoji(text, replace=r)\<close>;
  \<^item> \<open>stopwords_english\<close> is \<open>stopwords.words("english")\<close>;
  \<^item> \<open>word_tokenize\<close> is \<open>nltk.tokenize.word_tokenize\<close>;
  \<^item> \<open>lower_nonascii text i\<close> is what \<open>str.lower\<close> writes for the code point at index
    \<open>i\<close> of \<open>text\<close> when that code point is not ASCII (the Unicode full lowercase
    mapping, which for capital sigma depends on the neighbours).
\<close>

record libs =
  contractions_fix :: "pystr \<Rightarrow> pystr"
  html_unescape :: "pystr \<Rightarrow> pystr"
  emoji_replace_emoji :: "pystr \<Rightarrow> pystr \<Rightarrow> pystr"
  stopwords_english :: "pystr list"
  word_tokenize :: "pystr \<Rightarrow> pystr list"
  lower_nonascii :: "pystr \<Rightarrow> nat \<Rightarrow> pystr"

section \<open>The lexicons\<close>

definition negation_words :: "pystr set" where
  "negation_words =
     {ustr ''not'', ustr ''no'', ustr ''never'', ustr ''none'',
      ustr ''did'', ustr ''did not'',
      ustr ''was'', ustr ''was not'',
      ustr ''were'', ustr ''were not'',
      ustr ''cannot'',
      ustr ''cant'', ustr ''can'' @ [39] @ ustr ''t'',
      ustr ''should not'', ustr ''shouldn'' @ [39] @ ustr ''t'',
      ustr ''could not'', ustr ''couldn'' @ [39] @ ustr ''t'',
      ustr ''would not'', ustr ''wouldn'' @ [39] @ ustr ''t''}"

text \<open>\<open>stop_words = set(stopwords.words("english")) - negation_words\<close>.\<close>

definition stop_words :: "libs \<Rightarrow> pystr set" where
  "stop_words L = set (stopwords_english L) - negation_words"

section \<open>The stage functions\<close>

text \<open>
  \<open>re.sub(r"<.*?>", " ", text)\<close>. The scan goes from the left; at a \<open><\<close> the lazy
  \<open>.*?\<close> stops at the first \<open>></\<close>, and \<open>.\<close> does not match a newline (code point 10),
  so there is a match only when that \<open>></\<close> comes before any newline. A match is replaced
  by one space and the scan resumes behind it.
\<close>

function sub_tags :: "pystr \<Rightarrow> pystr" where
  "sub_tags [] = []"
| "sub_tags (c # cs) =
     (if c = 60 then
        (case dropWhile (\<lambda>d. d \<noteq> 62 \<and> d \<noteq> 10) cs of
           [] \<Rightarrow> c # sub_tags cs
         | d # rest \<Rightarrow> if d = 62 then 32 # sub_tags rest else c # sub_tags cs)
      else c # sub_tags cs)"
  by pat_completeness auto
termination
proof (relation "measure length")
  fix c :: nat and cs :: pystr and d rest
  assume "dropWhile (\<lambda>d. d \<noteq> 62 \<and> d \<noteq> 10) cs = d # rest"
  then have "length (d # rest) \<le> length cs"
    by (metis length_dropWhile_le)
  then show "(rest, c # cs) \<in> measure length" by simp
qed auto

definition remove_html_tags :: "libs \<Rightarrow> pystr \<Rightarrow> pystr" where
  "remove_html_tags L text = sub_tags (html_unescape L text)"

definition remove_emojis :: "libs \<Rightarrow> pystr \<Rightarrow> pystr" where
  "remove_emojis L text = emoji_replace_emoji L text [32]"

definition expand_contractions_text :: "libs \<Rightarrow> pystr \<Rightarrow> pystr" where
  "expand_contractions_text L text =
     (let expanded = contractions_fix L text;
          expanded = str_replace (ustr ''can not'') (ustr ''cannot'') expanded
      in expanded)"

text \<open>
  \<open>re.sub(r"(.)\1{2,}", r"\1\1", text)\<close>. At a code point other than a newline that is
  followed by at least two copies of itself, the greedy \<open>\1{2,}\<close> takes every copy that
  follows; the match is replaced by two copies and the scan resumes behind it.
\<close>

function normalize_repeated_characters :: "pystr \<Rightarrow> pystr" where
  "normalize_repeated_characters [] = []"
| "normalize_repeated_characters (c # cs) =
     (if c \<noteq> 10 \<and> 2 \<le> length (takeWhile (\<lambda>d. d = c) cs)
      then c # c # normalize_repeated_characters (dropWhile (\<lambda>d. d = c) cs)
      else c # normalize_repeated_characters cs)"
  by pat_completeness auto
termination
proof (relation "measure length")
  fix c :: nat and cs :: pystr
  have "length (dropWhile (\<lambda>d. d = c) cs) \<le> length cs"
    by (rule length_dropWhile_le)
  then show "(dropWhile (\<lambda>d. d = c) cs, c # cs) \<in> measure length" by simp
qed auto

text \<open>\<open>re.sub(r"[^a-zA-Z\s]", " ", text)\<close>.\<close>

definition remove_symbols :: "pystr \<Rightarrow> pystr" where
  "remove_symbols text =
     map (\<lambda>c. if is_ascii_lower c \<or> is_ascii_upper c \<or> py_isspace c then c else 32) text"

text \<open>
  \<open>text.lower()\<close>: an ASCII capital becomes its small letter, any other ASCII code point
  stays, and a code point above 127 is mapped by the runtime's Unicode table.
\<close>

definition lower_cp :: "libs \<Rightarrow> pystr \<Rightarrow> nat \<Rightarrow> nat \<Rightarrow> pystr" where
  "lower_cp L text i c =
     (if is_ascii_upper c then [c + 32] else if c < 128 then [c] else lower_nonascii L text i)"

fun lower_from :: "libs \<Rightarrow> pystr \<Rightarrow> nat \<Rightarrow> pystr \<Rightarrow> pystr" where
  "lower_from L text i [] = []"
| "lower_from L text i (c # cs) = lower_cp L text i c @ lower_from L text (Suc i) cs"

definition lowercase_text :: "libs \<Rightarrow> pystr \<Rightarrow> pystr" where
  "lowercase_text L text = lower_from L text 0 text"

text \<open>
  The loop of \<open>remove_stopwords\<close> over the tokens, with the list \<open>cleaned\<close> it appends
  to, and the function itself.
\<close>

fun stopword_loop :: "libs \<Rightarrow> pystr list \<Rightarrow> pystr list \<Rightarrow> pystr list" where
  "stopword_loop L [] cleaned = cleaned"
| "stopword_loop L (w # ws) cleaned =
     (if w \<in> negation_words then stopword_loop L ws (cleaned @ [w])
      else if w \<notin> stop_words L then stopword_loop L ws (cleaned @ [w])
      else stopword_loop L ws cleaned)"

definition remove_stopwords :: "libs \<Rightarrow> pystr \<Rightarrow> pystr" where
  "remove_stopwords L text =
     (let words = word_tokenize L text;
          cleaned = stopword_loop L words []
      in py_join [32] cleaned)"

definition count_words :: "pystr \<Rightarrow> nat" where
  "count_words text = length (py_split text)"

section \<open>The pipeline\<close>

definition clean_comment :: "libs \<Rightarrow> pystr \<Rightarrow> pystr \<times> nat \<times> nat" where
  "clean_comment L text =
     (let words_before = count_words text;
          cleaned = expand_contractions_text L text;
          cleaned = remove_html_tags L cleaned;
          cleaned = remove_emojis L cleaned;
          cleaned = normalize_repeated_characters cleaned;
          cleaned = lowercase_text L cleaned;
          cleaned = remove_symbols cleaned;
          cleaned = remove_stopwords L cleaned;
          cleaned = py_join [32] (py_split cleaned);
          words_after = count_words cleaned
      in (cleaned, words_before, words_after))"

definition flag_cleaning_success :: "pystr \<Rightarrow> pystr \<Rightarrow> string" where
  "flag_cleaning_success original_text cleaned_text =
     (if py_strip cleaned_text \<noteq> [] then ''Success'' else ''Failed'')"

section \<open>Assumptions on the libraries\<close>

text \<open>
  A text is plain when it has only small ASCII letters and whitespace; that is what
  \<open>remove_symbols\<close> hands to the stopword filter once the text has been lowercased.
\<close>

definition plain :: "pystr \<Rightarrow> bool" where
  "plain text \<longleftrightarrow> (\<forall>c\<in>set text. is_ascii_lower c \<or> py_isspace c)"

text \<open>Lowercasing a code point above 127 never writes an ASCII capital.\<close>

definition lower_table_ok :: "libs \<Rightarrow> bool" where
  "lower_table_ok L \<longleftrightarrow>
     (\<forall>text i. i < length text \<longrightarrow> 128 \<le> text ! i \<longrightarrow>
        (\<forall>d\<in>set (lower_nonascii L text i). \<not> is_ascii_upper d))"

text \<open>On a plain text the tokenizer returns non-empty words of small ASCII letters.\<close>

definition tokenizer_plain :: "libs \<Rightarrow> bool" where
  "tokenizer_plain L \<longleftrightarrow>
     (\<forall>text. plain text \<longrightarrow>
        (\<forall>w\<in>set (word_tokenize L text). w \<noteq> [] \<and> (\<forall>c\<in>set w. is_ascii_lower c)))"

text \<open>On a plain text the tokenizer returns tokens that are plain themselves.\<close>

definition tokenizer_closed :: "libs \<Rightarrow> bool" where
  "tokenizer_closed L \<longleftrightarrow>
     (\<forall>s. plain s \<longrightarrow> (\<forall>w\<in>set (word_tokenize L s). plain w))"

text \<open>On a plain text no token has a space (32) or an apostrophe (39) in it.\<close>

definition tokenizer_unbroken :: "libs \<Rightarrow> bool" where
  "tokenizer_unbroken L \<longleftrightarrow>
     (\<forall>s. plain s \<longrightarrow> (\<forall>w\<in>set (word_tokenize L s). 32 \<notin> set w \<and> 39 \<notin> set w))"

section \<open>A sample instance of the libraries\<close>

text \<open>
  An instance for running the model: no contraction and no character entity is known
  to it, the emoji are the code points of the Emoticons block (U+1F600 to U+1F64F), the
  stopword list is an excerpt of the corpus, the tokenizer splits at whitespace and
  lowercasing leaves code points above 127 alone.
\<close>

definition sample_replace_emoji :: "pystr \<Rightarrow> pystr \<Rightarrow> pystr" where
  "sample_replace_emoji text r =
     concat (map (\<lambda>c. if 128512 \<le> c \<and> c \<le> 128591 then r else [c]) text)"

definition sample_libs :: libs where
  "sample_libs =
     \<lparr> contractions_fix = (\<lambda>text. text),
       html_unescape = (\<lambda>text. text),
       emoji_replace_emoji = sample_replace_emoji,
       stopwords_english =
         [ustr ''i'', ustr ''me'', ustr ''my'', ustr ''this'', ustr ''that'', ustr ''the'',
          ustr ''a'', ustr ''is'', ustr ''was'', ustr ''were'', ustr ''did'', ustr ''no'',
          ustr ''not'', ustr ''can'', ustr ''it'', ustr ''couldn'' @ [39] @ ustr ''t''],
       word_tokenize = py_split,
       lower_nonascii = (\<lambda>text i. [text ! i]) \<rparr>"

section \<open>The tokenizer of NLTK on plain texts\<close>

text \<open>
  What \<open>nltk.tokenize.word_tokenize\<close> does with a text of small letters and
  whitespace: the text is split at whitespace, and the contraction rules of the
  Treebank tokenizer (\<open>(?i)\b(can)(?#X)(not)\b\<close> and its siblings) split the words
  \<open>cannot\<close>, \<open>gimme\<close>, \<open>gonna\<close>, \<open>gotta\<close>, \<open>lemme\<close> and \<open>wanna\<close> in two. This is
  the behaviour of the library, which is not part of the repository. The second
  instance of the libraries is the sample instance with this tokenizer.
\<close>

definition treebank_word :: "pystr \<Rightarrow> pystr list" where
  "treebank_word w =
     (if w = ustr ''cannot'' then [ustr ''can'', ustr ''not'']
      else if w = ustr ''gimme'' then [ustr ''gim'', ustr ''me'']
      else if w = ustr ''gonna'' then [ustr ''gon'', ustr ''na'']
      else if w = ustr ''gotta'' then [ustr ''got'', ustr ''ta'']
      else if w = ustr ''lemme'' then [ustr ''lem'', ustr ''me'']
      else if w = ustr ''wanna'' then [ustr ''wan'', ustr ''na'']
      else [w])"

definition treebank_tokenize :: "pystr \<Rightarrow> pystr list" where
  "treebank_tokenize text = concat (map treebank_word (py_split text))"

definition treebank_libs :: libs where
  "treebank_libs = sample_libs \<lparr> word_tokenize := treebank_tokenize \<rparr>"

section \<open>Notions of the specification\<close>

text \<open>
  The form of a cleaned text: small ASCII letters and spaces only, no two spaces in a
  row, no space at either end.
\<close>

fun no_double_space :: "pystr \<Rightarrow> bool" where
  "no_double_space (a # b # cs) \<longleftrightarrow> \<not> (a = 32 \<and> b = 32) \<and> no_double_space (b # cs)"
| "no_double_space cs \<longleftrightarrow> True"

definition cleaned_form :: "pystr \<Rightarrow> bool" where
  "cleaned_form c \<longleftrightarrow>
     (\<forall>ch\<in>set c. is_ascii_lower ch \<or> ch = 32) \<and> no_double_space c \<and>
     (c = [] \<or> (hd c \<noteq> 32 \<and> last c \<noteq> 32))"

text \<open>
  The maximal runs of equal code points of a text, each with its length, and the text
  that a list of runs stands for.
\<close>

fun runs :: "pystr \<Rightarrow> (nat \<times> nat) list" where
  "runs [] = []"
| "runs (c # cs) =
     (case runs cs of
        [] \<Rightarrow> [(c, 1)]
      | (d, n) # rs \<Rightarrow> if d = c then (c, Suc n) # rs else (c, 1) # (d, n) # rs)"

definition expand_runs :: "(nat \<times> nat) list \<Rightarrow> pystr" where
  "expand_runs rs = concat (map (\<lambda>(c, n). replicate n c) rs)"

fun maximal_runs :: "(nat \<times> nat) list \<Rightarrow> bool" where
  "maximal_runs [] \<longleftrightarrow> True"
| "maximal_runs [(c, n)] \<longleftrightarrow> 1 \<le> n"
| "maximal_runs ((c, n) # (d, m) # rs) \<longleftrightarrow> 1 \<le> n \<and> c \<noteq> d \<and> maximal_runs ((d, m) # rs)"

text \<open>
  The collapsing rule as the specification words it: a run of three or more becomes a
  run of two. The second version exempts the newline.
\<close>

definition collapse_every_run :: "nat \<times> nat \<Rightarrow> nat \<times> nat" where
  "collapse_every_run r = (case r of (c, n) \<Rightarrow> (c, if 3 \<le> n then 2 else n))"

definition collapse_run :: "nat \<times> nat \<Rightarrow> nat \<times> nat" where
  "collapse_run r = (case r of (c, n) \<Rightarrow> (c, if 3 \<le> n \<and> c \<noteq> 10 then 2 else n))"

text \<open>
  The stopword filter over the whitelist of single words only, to be compared with
  \<open>remove_stopwords\<close>.
\<close>

definition negation_words_single :: "pystr set" where
  "negation_words_single =
     {ustr ''not'', ustr ''no'', ustr ''never'', ustr ''none'', ustr ''did'', ustr ''was'',
      ustr ''were'', ustr ''cannot'', ustr ''cant''}"

definition stop_words_single :: "libs \<Rightarrow> pystr set" where
  "stop_words_single L = set (stopwords_english L) - negation_words_single"

fun stopword_loop_single :: "libs \<Rightarrow> pystr list \<Rightarrow> pystr list \<Rightarrow> pystr list" where
  "stopword_loop_single L [] cleaned = cleaned"
| "stopword_loop_single L (w # ws) cleaned =
     (if w \<in> negation_words_single then stopword_loop_single L ws (cleaned @ [w])
      else if w \<notin> stop_words_single L then stopword_loop_single L ws (cleaned @ [w])
      else stopword_loop_single L ws cleaned)"

definition remove_stopwords_single :: "libs \<Rightarrow> pystr \<Rightarrow> pystr" where
  "remove_stopwords_single L text =
     (let words = word_tokenize L text;
          cleaned = stopword_loop_single L words []
      in py_join [32] cleaned)"

text \<open>The four stages of \<open>clean_comment\<close> that run before the text is lowercased.\<close>

definition early_stages :: "libs \<Rightarrow> pystr \<Rightarrow> pystr" where
  "early_stages L text =
     normalize_repeated_characters
       (remove_emojis L (remove_html_tags L (expand_contractions_text L text)))"

text \<open>The input of the first scenario of the specification; U+1F60D is 128525.\<close>

definition scenario1 :: pystr where
  "scenario1 = ustr ''I love this! '' @ [128525] @ ustr '' <br> Amazing''"

section \<open>Strings, words and joins\<close>

lemma split_from_words:
  "\<forall>c\<in>set cur. \<not> py_isspace c \<Longrightarrow> w \<in> set (split_from cur s) \<Longrightarrow>
     w \<noteq> [] \<and> (\<forall>c\<in>set w. \<not> py_isspace c)"
proof (induction s arbitrary: cur)
  case Nil
  then show ?case by (auto split: if_splits)
next
  case (Cons c s)
  show ?case
  proof (cases "py_isspace c")
    case True
    with Cons.prems have "w = cur \<and> cur \<noteq> [] \<or> w \<in> set (split_from [] s)"
      by (auto split: if_splits)
    then show ?thesis
      using Cons.IH [of "[]"] Cons.prems(1) by auto
  next
    case False
    with Cons.prems have "w \<in> set (split_from (cur @ [c]) s)" by simp
    moreover have "\<forall>d\<in>set (cur @ [c]). \<not> py_isspace d"
      using Cons.prems(1) False by simp
    ultimately show ?thesis using Cons.IH by blast
  qed
qed

lemma split_from_chars:
  "w \<in> set (split_from cur s) \<Longrightarrow> set w \<subseteq> set cur \<union> set s"
proof (induction s arbitrary: cur)
  case Nil
  then show ?case by (auto split: if_splits)
next
  case (Cons c s)
  show ?case
  proof (cases "py_isspace c")
    case True
    with Cons.prems have "w = cur \<or> w \<in> set (split_from [] s)"
      by (auto split: if_splits)
    then show ?thesis using Cons.IH [of "[]"] by auto
  next
    case False
    with Cons.prems have "w \<in> set (split_from (cur @ [c]) s)" by simp
    then show ?thesis using Cons.IH [of "cur @ [c]"] by auto
  qed
qed

lemma split_from_nospace:
  "\<forall>c\<in>set t. \<not> py_isspace c \<Longrightarrow>
     split_from cur t = (if cur @ t = [] then [] else [cur @ t])"
  by (induction t arbitrary: cur) auto

lemma split_from_append_space:
  "py_isspace sp \<Longrightarrow> split_from cur (a @ sp # b) = split_from cur a @ split_from [] b"
  by (induction a arbitrary: cur) auto

lemma py_split_words:
  "w \<in> set (py_split s) \<Longrightarrow> w \<noteq> [] \<and> (\<forall>c\<in>set w. \<not> py_isspace c) \<and> set w \<subseteq> set s"
  using split_from_words [of "[]" w s] split_from_chars [of w "[]" s]
  by (simp add: py_split_def)

lemma isspace_32: "py_isspace 32"
  by (simp add: py_isspace_def)

lemma py_split_join:
  "py_split (py_join [32] ws) = concat (map py_split ws)"
proof (induction "[32::nat]" ws rule: py_join.induct)
  case 1
  show ?case by (simp add: py_split_def)
next
  case (2 w)
  show ?case by simp
next
  case (3 w v vs)
  have "py_split (w @ 32 # py_join [32] (v # vs)) = py_split w @ py_split (py_join [32] (v # vs))"
    unfolding py_split_def by (rule split_from_append_space) (rule isspace_32)
  with 3 show ?case by simp
qed

lemma py_split_word:
  "w \<noteq> [] \<Longrightarrow> \<forall>c\<in>set w. \<not> py_isspace c \<Longrightarrow> py_split w = [w]"
  by (simp add: py_split_def split_from_nospace)

lemma py_split_join_words:
  "\<forall>w\<in>set ws. w \<noteq> [] \<and> (\<forall>c\<in>set w. \<not> py_isspace c) \<Longrightarrow> py_split (py_join [32] ws) = ws"
  unfolding py_split_join by (induction ws) (simp_all add: py_split_word)

lemma join_chars:
  "set (py_join [32] ws) \<subseteq> (\<Union>w\<in>set ws. set w) \<union> {32}"
  by (induction "[32::nat]" ws rule: py_join.induct) auto

lemma no_double_space_append:
  "no_double_space u \<Longrightarrow> no_double_space v \<Longrightarrow> u = [] \<or> v = [] \<or> last u \<noteq> 32 \<or> hd v \<noteq> 32 \<Longrightarrow>
     no_double_space (u @ v)"
proof (induction u rule: no_double_space.induct)
  case (1 a b cs)
  then show ?case by auto
next
  case "2_1"
  then show ?case by simp
next
  case "2_2"
  then show ?case by (cases v) auto
qed

lemma word_no_double_space:
  "32 \<notin> set w \<Longrightarrow> no_double_space w"
  by (induction w rule: no_double_space.induct) auto

lemma join_form:
  "\<forall>w\<in>set ws. w \<noteq> [] \<and> 32 \<notin> set w \<Longrightarrow>
     no_double_space (py_join [32] ws) \<and>
     (ws \<noteq> [] \<longrightarrow> py_join [32] ws \<noteq> [] \<and> hd (py_join [32] ws) \<noteq> 32 \<and> last (py_join [32] ws) \<noteq> 32)"
proof (induction "[32::nat]" ws rule: py_join.induct)
  case 1
  show ?case by simp
next
  case (2 w)
  then have "w \<noteq> []" "32 \<notin> set w" by auto
  then have "hd w \<noteq> 32" "last w \<noteq> 32"
    by (metis hd_in_set, metis last_in_set)
  with \<open>32 \<notin> set w\<close> \<open>w \<noteq> []\<close> show ?case
    by (simp add: word_no_double_space)
next
  case (3 w v vs)
  let ?r = "py_join [32] (v # vs)"
  from 3 have r: "no_double_space ?r" "?r \<noteq> []" "hd ?r \<noteq> 32" "last ?r \<noteq> 32" by auto
  from "3.prems" have w: "w \<noteq> []" "32 \<notin> set w" by auto
  then have hl: "hd w \<noteq> 32" "last w \<noteq> 32"
    by (metis hd_in_set, metis last_in_set)
  have "no_double_space (32 # ?r)" using r by (cases ?r) auto
  then have "no_double_space (w @ 32 # ?r)"
    using w hl by (intro no_double_space_append) (simp_all add: word_no_double_space)
  moreover have "hd (w @ 32 # ?r) \<noteq> 32" using w hl by simp
  moreover have "last (w @ 32 # ?r) \<noteq> 32" using r by simp
  ultimately show ?case by simp
qed

lemma stopword_loop_filter:
  "stopword_loop L ws cleaned =
     cleaned @ filter (\<lambda>w. w \<in> negation_words \<or> w \<notin> set (stopwords_english L)) ws"
  by (induction ws arbitrary: cleaned) (auto simp: stop_words_def)

lemma lower_from_no_upper:
  assumes "lower_table_ok L"
  shows "drop i text = cs \<Longrightarrow> d \<in> set (lower_from L text i cs) \<Longrightarrow> \<not> is_ascii_upper d"
proof (induction cs arbitrary: i)
  case Nil
  then show ?case by simp
next
  case (Cons c cs)
  have i: "i < length text" using Cons.prems(1) by (cases "i < length text") auto
  have c: "text ! i = c" using Cons.prems(1) i by (metis hd_drop_conv_nth list.sel(1))
  have r: "drop (Suc i) text = cs" using Cons.prems(1) by (metis drop_Suc tl_drop list.sel(3))
  from Cons.prems(2) consider "d \<in> set (lower_cp L text i c)" | "d \<in> set (lower_from L text (Suc i) cs)"
    by auto
  then show ?case
  proof cases
    case 1
    then show ?thesis
      using assms i c
      by (auto simp: lower_cp_def lower_table_ok_def is_ascii_upper_def split: if_splits)
  next
    case 2
    then show ?thesis using Cons.IH [OF r] by simp
  qed
qed

lemma lowercase_text_no_upper:
  "lower_table_ok L \<Longrightarrow> d \<in> set (lowercase_text L s) \<Longrightarrow> \<not> is_ascii_upper d"
  unfolding lowercase_text_def by (rule lower_from_no_upper [of L 0 s s]) simp_all

lemma remove_symbols_plain:
  "\<forall>d\<in>set t. \<not> is_ascii_upper d \<Longrightarrow> plain (remove_symbols t)"
  by (auto simp: plain_def remove_symbols_def isspace_32)

lemma lower_from_id:
  "\<forall>c\<in>set t. is_ascii_lower c \<or> c = 32 \<Longrightarrow> lower_from L text i t = t"
  by (induction t arbitrary: i) (auto simp: lower_cp_def is_ascii_lower_def is_ascii_upper_def)

lemma remove_symbols_id:
  "\<forall>c\<in>set t. is_ascii_lower c \<or> c = 32 \<Longrightarrow> remove_symbols t = t"
  unfolding remove_symbols_def by (rule map_idI) auto

lemma lower_not_space: "is_ascii_lower c \<Longrightarrow> \<not> py_isspace c"
  by (auto simp: is_ascii_lower_def py_isspace_def)

section \<open>The lexicons as numerals\<close>

lemma negation_words_unfold:
  "negation_words =
     {[110,111,116], [110,111], [110,101,118,101,114], [110,111,110,101],
      [100,105,100], [100,105,100,32,110,111,116],
      [119,97,115], [119,97,115,32,110,111,116],
      [119,101,114,101], [119,101,114,101,32,110,111,116],
      [99,97,110,110,111,116],
      [99,97,110,116], [99,97,110,39,116],
      [115,104,111,117,108,100,32,110,111,116], [115,104,111,117,108,100,110,39,116],
      [99,111,117,108,100,32,110,111,116], [99,111,117,108,100,110,39,116],
      [119,111,117,108,100,32,110,111,116], [119,111,117,108,100,110,39,116]}"
  by (simp add: negation_words_def ustr_def)


lemma negation_words_checked:
  "\<forall>t\<in>negation_words. 32 \<notin> set t \<longrightarrow> t \<noteq> [] \<and> (\<forall>c\<in>set t. \<not> py_isspace c)"
  by (simp add: negation_words_unfold py_isspace_def)

lemma negation_word_unbroken:
  "t \<in> negation_words \<Longrightarrow> 32 \<notin> set t \<Longrightarrow> t \<noteq> [] \<and> (\<forall>c\<in>set t. \<not> py_isspace c)"
  using negation_words_checked by blast


lemma negation_words_single_unfold:
  "negation_words_single =
     {[110,111,116], [110,111], [110,101,118,101,114], [110,111,110,101],
      [100,105,100], [119,97,115], [119,101,114,101], [99,97,110,110,111,116], [99,97,110,116]}"
  by (simp add: negation_words_single_def ustr_def)

lemma negation_single_subset: "\<forall>w\<in>negation_words_single. w \<in> negation_words"
  by (simp add: negation_words_unfold negation_words_single_unfold)

lemma negation_unbroken_single:
  "\<forall>w\<in>negation_words. 32 \<notin> set w \<and> 39 \<notin> set w \<longrightarrow> w \<in> negation_words_single"
  by (simp add: negation_words_unfold negation_words_single_unfold)

lemma plain_word_negation:
  "32 \<notin> set w \<Longrightarrow> 39 \<notin> set w \<Longrightarrow> w \<in> negation_words \<longleftrightarrow> w \<in> negation_words_single"
  using negation_single_subset negation_unbroken_single by blast

section \<open>The stopword filter and the lexicons\<close>

lemma remove_stopwords_join:
  "remove_stopwords L s =
     py_join [32] (filter (\<lambda>w. w \<in> negation_words \<or> w \<notin> set (stopwords_english L)) (word_tokenize L s))"
  by (simp add: remove_stopwords_def stopword_loop_filter)

text \<open>
  Claim C9. Once the module is loaded the stopword set and the negation set have no
  element in common, whatever the stopword corpus holds. Both are constants of the
  model, as no function of the module assigns to them.
\<close>

theorem lexicons_disjoint: "stop_words L \<inter> negation_words = {}"
  by (auto simp: stop_words_def)

lemma py_strip_empty_iff: "py_strip t = [] \<longleftrightarrow> (\<forall>c\<in>set t. py_isspace c)"
proof -
  have "py_strip t = [] \<longleftrightarrow> (\<forall>c\<in>set (dropWhile py_isspace t). py_isspace c)"
    by (simp add: py_strip_def)
  also have "\<dots> \<longleftrightarrow> dropWhile py_isspace t = []"
    by (metis dropWhile_eq_Nil_conv dropWhile_idem)
  finally show ?thesis by simp
qed

text \<open>
  Claim C7. \<open>flag_cleaning_success\<close> answers \<open>Success\<close> exactly when the stripped cleaned
  text is not empty, that is when the cleaned text has a code point that is not
  whitespace, and \<open>Failed\<close> otherwise; the original text has no influence.
\<close>

theorem flag_cleaning_success_spec:
  "(flag_cleaning_success original_text cleaned_text = ''Success''
      \<longleftrightarrow> py_strip cleaned_text \<noteq> []) \<and>
   (flag_cleaning_success original_text cleaned_text = ''Failed''
      \<longleftrightarrow> py_strip cleaned_text = []) \<and>
   (py_strip cleaned_text \<noteq> [] \<longleftrightarrow> (\<exists>c\<in>set cleaned_text. \<not> py_isspace c)) \<and>
   flag_cleaning_success original_text cleaned_text =
     flag_cleaning_success other_text cleaned_text"
  using py_strip_empty_iff [of cleaned_text] by (auto simp: flag_cleaning_success_def)

text \<open>
  A negation word without a space that the tokenizer returns for the text given to
  \<open>remove_stopwords\<close> is in the list the loop keeps and is a word of the returned text.
\<close>

lemma negation_token_kept:
  assumes "t \<in> negation_words" and "32 \<notin> set t" and "t \<in> set (word_tokenize L s)"
  shows "t \<in> set (stopword_loop L (word_tokenize L s) []) \<and>
         t \<in> set (py_split (remove_stopwords L s))"
proof -
  let ?kept = "stopword_loop L (word_tokenize L s) []"
  have kept: "t \<in> set ?kept"
    using assms(1,3) by (simp add: stopword_loop_filter)
  have "py_split t = [t]"
    using negation_word_unbroken [OF assms(1,2)] by (simp add: py_split_word)
  with kept have "t \<in> set (concat (map py_split ?kept))"
    by force
  then have "t \<in> set (py_split (remove_stopwords L s))"
    by (simp add: remove_stopwords_def py_split_join)
  with kept show ?thesis by simp
qed

lemma sample_tokens: "word_tokenize sample_libs = py_split"
  by (simp add: sample_libs_def)

lemma stopword_loop_single_filter:
  "stopword_loop_single L ws cleaned =
     cleaned @ filter (\<lambda>w. w \<in> negation_words_single \<or> w \<notin> set (stopwords_english L)) ws"
  by (induction ws arbitrary: cleaned) (auto simp: stop_words_single_def)

text \<open>
  Claim C10. When the tokenizer yields no token with a space or an apostrophe on plain
  texts, \<open>remove_stopwords\<close> returns on every plain text what the filter with the nine
  single words as its whitelist returns.
\<close>

theorem multiword_negations_inert:
  assumes "tokenizer_unbroken L" and "plain s"
  shows "remove_stopwords L s = remove_stopwords_single L s"
proof -
  have "\<forall>w\<in>set (word_tokenize L s). w \<in> negation_words \<longleftrightarrow> w \<in> negation_words_single"
    using assms plain_word_negation unfolding tokenizer_unbroken_def by blast
  then have "filter (\<lambda>w. w \<in> negation_words \<or> w \<notin> set (stopwords_english L)) (word_tokenize L s) =
      filter (\<lambda>w. w \<in> negation_words_single \<or> w \<notin> set (stopwords_english L)) (word_tokenize L s)"
    by (intro filter_cong) auto
  then show ?thesis
    by (simp add: remove_stopwords_def remove_stopwords_single_def stopword_loop_filter
        stopword_loop_single_filter)
qed

lemma sample_unbroken: "tokenizer_unbroken sample_libs"
  unfolding tokenizer_unbroken_def sample_tokens
proof (intro allI impI ballI)
  fix s w assume "plain s" and w: "w \<in> set (py_split s)"
  from py_split_words [OF w] have "\<forall>c\<in>set w. \<not> py_isspace c" "set w \<subseteq> set s" by auto
  with \<open>plain s\<close> have "\<forall>c\<in>set w. is_ascii_lower c" by (auto simp: plain_def)
  then show "32 \<notin> set w \<and> 39 \<notin> set w" by (auto simp: is_ascii_lower_def)
qed

theorem multiword_negations_inert_witness:
  "tokenizer_unbroken sample_libs \<and> plain (ustr ''it was not me'') \<and>
   remove_stopwords sample_libs (ustr ''it was not me'') = ustr ''was not'' \<and>
   remove_stopwords_single sample_libs (ustr ''it was not me'') = ustr ''was not''"
proof -
  have p: "plain (ustr ''it was not me'')"
    by (simp add: plain_def ustr_def is_ascii_lower_def py_isspace_def)
  have r: "remove_stopwords sample_libs (ustr ''it was not me'') = ustr ''was not''"
    by (simp add: remove_stopwords_def sample_libs_def py_split_def ustr_def py_isspace_def
        negation_words_unfold stop_words_def)
  show ?thesis
    using multiword_negations_inert [OF sample_unbroken p] sample_unbroken p r by simp
qed

section \<open>Properties of the pipeline\<close>

lemma clean_text_unfold:
  "fst (clean_comment L s) =
     py_join [32] (py_split (remove_stopwords L (remove_symbols (lowercase_text L (early_stages L s)))))"
  by (simp add: clean_comment_def early_stages_def Let_def)

lemma filter_input_plain:
  "lower_table_ok L \<Longrightarrow> plain (remove_symbols (lowercase_text L y))"
  using lowercase_text_no_upper [of L _ y] by (intro remove_symbols_plain) blast

lemma cleaned_form_join:
  assumes "\<forall>w\<in>set ws. w \<noteq> [] \<and> (\<forall>c\<in>set w. is_ascii_lower c)"
  shows "cleaned_form (py_join [32] ws)"
proof -
  have ws: "\<forall>w\<in>set ws. w \<noteq> [] \<and> 32 \<notin> set w"
  proof
    fix w assume w: "w \<in> set ws"
    have "\<not> is_ascii_lower 32" by (simp add: is_ascii_lower_def)
    with assms w show "w \<noteq> [] \<and> 32 \<notin> set w" by blast
  qed
  have chars: "\<forall>ch\<in>set (py_join [32] ws). is_ascii_lower ch \<or> ch = 32"
    using join_chars [of ws] assms by auto
  show ?thesis
  proof (cases "ws = []")
    case True
    then show ?thesis by (simp add: cleaned_form_def)
  next
    case False
    with join_form [OF ws] chars show ?thesis by (simp add: cleaned_form_def)
  qed
qed

text \<open>
  Claim C3. The cleaned text of \<open>clean_comment\<close> has small ASCII letters and spaces
  only, no two spaces in a row and no space at either end (the empty text included),
  given that lowercasing writes no ASCII capital and that the tokenizer returns plain
  tokens on a plain text.
\<close>

theorem alphabet_closure:
  assumes "lower_table_ok L" and "tokenizer_closed L"
  shows "cleaned_form (fst (clean_comment L s))"
proof -
  let ?x = "remove_symbols (lowercase_text L (early_stages L s))"
  let ?K = "filter (\<lambda>w. w \<in> negation_words \<or> w \<notin> set (stopwords_english L)) (word_tokenize L ?x)"
  have "plain ?x" using assms(1) by (rule filter_input_plain)
  then have K: "\<forall>k\<in>set ?K. plain k"
    using assms(2) by (simp add: tokenizer_closed_def)
  have "\<forall>w\<in>set (concat (map py_split ?K)). w \<noteq> [] \<and> (\<forall>c\<in>set w. is_ascii_lower c)"
  proof
    fix w assume "w \<in> set (concat (map py_split ?K))"
    then obtain k where k: "k \<in> set ?K" and w: "w \<in> set (py_split k)" by auto
    from py_split_words [OF w] have "w \<noteq> []" "\<forall>c\<in>set w. \<not> py_isspace c" "set w \<subseteq> set k"
      by auto
    moreover from K k have "plain k" by blast
    ultimately show "w \<noteq> [] \<and> (\<forall>c\<in>set w. is_ascii_lower c)"
      by (auto simp: plain_def)
  qed
  then have "cleaned_form (py_join [32] (concat (map py_split ?K)))"
    by (rule cleaned_form_join)
  then show ?thesis
    by (simp add: clean_text_unfold remove_stopwords_join py_split_join)
qed

lemma sample_lower_table_ok: "lower_table_ok sample_libs"
  by (simp add: lower_table_ok_def sample_libs_def is_ascii_upper_def)

lemma sample_closed: "tokenizer_closed sample_libs"
  unfolding tokenizer_closed_def sample_tokens
proof (intro allI impI ballI)
  fix s w assume "plain s" and w: "w \<in> set (py_split s)"
  from py_split_words [OF w] have "set w \<subseteq> set s" by simp
  with \<open>plain s\<close> show "plain w" by (auto simp: plain_def)
qed

lemma sample_fix: "contractions_fix sample_libs s = s"
  by (simp add: sample_libs_def)

lemma sample_unescape: "html_unescape sample_libs s = s"
  by (simp add: sample_libs_def)

lemma sample_lower: "lower_nonascii sample_libs s i = [s ! i]"
  by (simp add: sample_libs_def)

lemma sample_emoji: "emoji_replace_emoji sample_libs = sample_replace_emoji"
  by (simp add: sample_libs_def)

lemma sample_stopwords:
  "set (stopwords_english sample_libs) =
     {[105], [109,101], [109,121], [116,104,105,115], [116,104,97,116], [116,104,101],
      [97], [105,115], [119,97,115], [119,101,114,101], [100,105,100], [110,111],
      [110,111,116], [99,97,110], [105,116], [99,111,117,108,100,110,39,116]}"
  by (simp add: sample_libs_def ustr_def)

lemmas eval_simps =
  clean_comment_def Let_def count_words_def py_split_def ustr_def py_isspace_def
  expand_contractions_text_def remove_html_tags_def remove_emojis_def lowercase_text_def
  lower_cp_def is_ascii_upper_def is_ascii_lower_def remove_symbols_def remove_stopwords_def
  stop_words_def negation_words_unfold sample_fix sample_unescape sample_lower sample_emoji
  sample_tokens sample_stopwords sample_replace_emoji_def

lemma sample_run: "clean_comment sample_libs (ustr ''It was  NOT good!'') = (ustr ''was not good'', 4, 3)"
  by (simp add: eval_simps)

theorem alphabet_closure_witness:
  "lower_table_ok sample_libs \<and> tokenizer_closed sample_libs \<and>
   fst (clean_comment sample_libs (ustr ''It was  NOT good!'')) = ustr ''was not good'' \<and>
   cleaned_form (ustr ''was not good'')"
  using alphabet_closure [OF sample_lower_table_ok sample_closed, of "ustr ''It was  NOT good!''"]
    sample_lower_table_ok sample_closed sample_run
  by simp

text \<open>
  Claim C6. On the empty string \<open>clean_comment\<close> returns the empty text with both
  counts zero, and the success flag of that result is \<open>Failed\<close>, given that the four
  library functions return nothing on the empty string.
\<close>

theorem empty_string:
  assumes "contractions_fix L [] = []" and "html_unescape L [] = []"
    and "emoji_replace_emoji L [] [32] = []" and "word_tokenize L [] = []"
  shows "clean_comment L [] = ([], 0, 0) \<and>
         flag_cleaning_success [] (fst (clean_comment L [])) = ''Failed''"
  using assms
  by (simp add: clean_comment_def Let_def count_words_def py_split_def
      expand_contractions_text_def remove_html_tags_def remove_emojis_def lowercase_text_def
      remove_symbols_def remove_stopwords_def flag_cleaning_success_def py_strip_def ustr_def)

theorem empty_string_witness:
  "contractions_fix sample_libs [] = [] \<and> html_unescape sample_libs [] = [] \<and>
   emoji_replace_emoji sample_libs [] [32] = [] \<and> word_tokenize sample_libs [] = [] \<and>
   clean_comment sample_libs [] = ([], 0, 0) \<and>
   flag_cleaning_success [] (fst (clean_comment sample_libs [])) = ''Failed''"
proof -
  have a: "contractions_fix sample_libs [] = []" by (simp add: sample_fix)
  have b: "html_unescape sample_libs [] = []" by (simp add: sample_unescape)
  have c: "emoji_replace_emoji sample_libs [] [32] = []"
    by (simp add: sample_emoji sample_replace_emoji_def)
  have d: "word_tokenize sample_libs [] = []" by (simp add: sample_tokens py_split_def)
  show ?thesis using empty_string [OF a b c d] a b c d
    by (simp add: flag_cleaning_success_def py_strip_def)
qed

section \<open>Collapsing of repeated characters\<close>

lemma expand_runs_Cons: "expand_runs ((c, n) # rs) = replicate n c @ expand_runs rs"
  by (simp add: expand_runs_def)

lemma runs_expand: "expand_runs (runs s) = s"
  by (induction s) (auto simp: expand_runs_def split: list.splits)

lemma runs_maximal: "maximal_runs (runs s)"
proof (induction s)
  case Nil
  show ?case by simp
next
  case (Cons c s)
  show ?case
  proof (cases "runs s")
    case Nil
    then show ?thesis by simp
  next
    case (Cons r rs)
    obtain d n where r: "r = (d, n)" by (cases r)
    from Cons.IH Cons r have m: "maximal_runs ((d, n) # rs)" by simp
    then have "maximal_runs ((d, Suc n) # rs)" by (cases rs) auto
    with m Cons r show ?thesis by auto
  qed
qed

lemma takeWhile_run:
  assumes "rest = [] \<or> hd rest \<noteq> c"
  shows "takeWhile (\<lambda>d. d = c) (replicate m c @ rest) = replicate m c"
proof (induction m)
  case 0
  show ?case using assms by (cases rest) auto
next
  case (Suc m)
  then show ?case by simp
qed

lemma dropWhile_run:
  assumes "rest = [] \<or> hd rest \<noteq> c"
  shows "dropWhile (\<lambda>d. d = c) (replicate m c @ rest) = rest"
proof (induction m)
  case 0
  show ?case using assms by (cases rest) auto
next
  case (Suc m)
  then show ?case by simp
qed

lemma normalize_run:
  assumes "rest = [] \<or> hd rest \<noteq> c"
  shows "normalize_repeated_characters (replicate n c @ rest) =
     replicate (snd (collapse_run (c, n))) c @ normalize_repeated_characters rest"
proof (induction n)
  case 0
  show ?case by (simp add: collapse_run_def)
next
  case (Suc m)
  show ?case
  proof (cases "c \<noteq> 10 \<and> 2 \<le> m")
    case True
    then have step: "normalize_repeated_characters (replicate (Suc m) c @ rest) =
        c # c # normalize_repeated_characters rest"
      using assms by (simp add: takeWhile_run dropWhile_run)
    show ?thesis unfolding step using True by (simp add: collapse_run_def numeral_2_eq_2)
  next
    case False
    then have step: "normalize_repeated_characters (replicate (Suc m) c @ rest) =
        c # normalize_repeated_characters (replicate m c @ rest)"
      using assms by (auto simp: takeWhile_run)
    show ?thesis unfolding step Suc using False by (auto simp: collapse_run_def)
  qed
qed

lemma maximal_runs_head: "maximal_runs ((d, m) # rs) \<Longrightarrow> 1 \<le> m"
  by (cases rs) auto

lemma normalize_expand:
  "maximal_runs rs \<Longrightarrow>
     normalize_repeated_characters (expand_runs rs) = expand_runs (map collapse_run rs)"
proof (induction rs rule: maximal_runs.induct)
  case 1
  show ?case by (simp add: expand_runs_def)
next
  case (2 c n)
  have "normalize_repeated_characters (replicate n c @ []) =
      replicate (snd (collapse_run (c, n))) c @ normalize_repeated_characters []"
    by (rule normalize_run) simp
  then show ?case by (simp add: expand_runs_def collapse_run_def)
next
  case (3 c n d m rs)
  let ?rest = "expand_runs ((d, m) # rs)"
  from "3.prems" have "1 \<le> m" "c \<noteq> d" "maximal_runs ((d, m) # rs)"
    by (auto dest: maximal_runs_head)
  then have "hd ?rest \<noteq> c" by (cases m) (auto simp: expand_runs_Cons)
  then have "normalize_repeated_characters (replicate n c @ ?rest) =
      replicate (snd (collapse_run (c, n))) c @ normalize_repeated_characters ?rest"
    by (intro normalize_run) simp
  with "3.IH" \<open>maximal_runs ((d, m) # rs)\<close> show ?case
    by (simp add: expand_runs_Cons collapse_run_def)
qed

text \<open>
  Claim C8, amended. \<open>normalize_repeated_characters\<close> rewrites every maximal run of
  three or more equal code points other than the newline to two of them, and leaves
  every other run as it is: runs of one or two, and runs of newlines of any length. It
  compares code points, so capitals and small letters are different characters.
\<close>

theorem repeated_characters_collapsed:
  "normalize_repeated_characters s = expand_runs (map collapse_run (runs s)) \<and>
   expand_runs (runs s) = s \<and> maximal_runs (runs s) \<and>
   normalize_repeated_characters (ustr ''goooood'') = ustr ''good'' \<and>
   normalize_repeated_characters (ustr ''sooooo'') = ustr ''soo''"
  using normalize_expand [OF runs_maximal, of s] by (simp add: runs_expand runs_maximal ustr_def)

text \<open>
  The rule for every character, as the specification words it, fails on three newlines,
  which the function returns unchanged: the \<open>.\<close> of the pattern does not match a
  newline.
\<close>

theorem newline_runs_kept:
  "normalize_repeated_characters [10, 10, 10] = [10, 10, 10] \<and>
   expand_runs (map collapse_every_run (runs [10, 10, 10])) = [10, 10] \<and>
   normalize_repeated_characters [10, 10, 10] \<noteq>
     expand_runs (map collapse_every_run (runs [10, 10, 10]))"
  by (simp add: expand_runs_def collapse_every_run_def numeral_2_eq_2)

section \<open>The first scenario\<close>

lemma scenario1_codes:
  "scenario1 = [73,32,108,111,118,101,32,116,104,105,115,33,32,128525,32,60,98,114,62,32,
     65,109,97,122,105,110,103]"
  by (simp add: scenario1_def ustr_def)

lemma scenario1_words: "count_words scenario1 = 6"
  by (simp add: scenario1_codes count_words_def py_split_def py_isspace_def)

lemma scenario1_expand:
  "contractions_fix L scenario1 = scenario1 \<Longrightarrow> expand_contractions_text L scenario1 = scenario1"
  by (simp add: expand_contractions_text_def scenario1_codes ustr_def)

lemma scenario1_tags:
  "html_unescape L scenario1 = scenario1 \<Longrightarrow>
     remove_html_tags L scenario1 = ustr ''I love this! '' @ [128525] @ ustr ''   Amazing''"
  by (simp add: remove_html_tags_def scenario1_codes ustr_def)

lemma scenario1_collapse:
  "normalize_repeated_characters (ustr ''I love this!     Amazing'') = ustr ''I love this!  Amazing''"
  by (simp add: ustr_def)

lemma scenario1_lower:
  "remove_symbols (lowercase_text L (ustr ''I love this!  Amazing'')) = ustr ''i love this   amazing''"
  by (simp add: ustr_def lowercase_text_def lower_cp_def remove_symbols_def is_ascii_upper_def
      is_ascii_lower_def py_isspace_def)

lemma scenario1_filter:
  assumes "word_tokenize L (ustr ''i love this   amazing'') =
      [ustr ''i'', ustr ''love'', ustr ''this'', ustr ''amazing'']"
    and "ustr ''i'' \<in> set (stopwords_english L)" and "ustr ''this'' \<in> set (stopwords_english L)"
    and "ustr ''love'' \<notin> set (stopwords_english L)"
    and "ustr ''amazing'' \<notin> set (stopwords_english L)"
  shows "remove_stopwords L (ustr ''i love this   amazing'') = ustr ''love amazing''"
proof -
  have n: "ustr ''i'' \<notin> negation_words" "ustr ''this'' \<notin> negation_words"
    by (simp_all add: negation_words_unfold ustr_def)
  have "filter (\<lambda>w. w \<in> negation_words \<or> w \<notin> set (stopwords_english L))
      [ustr ''i'', ustr ''love'', ustr ''this'', ustr ''amazing''] = [ustr ''love'', ustr ''amazing'']"
    using assms(2-5) n by simp
  then show ?thesis
    by (simp add: remove_stopwords_join assms(1)) (simp add: ustr_def)
qed

lemma scenario1_squeeze:
  "py_join [32] (py_split (ustr ''love amazing'')) = ustr ''love amazing'' \<and>
   count_words (ustr ''love amazing'') = 2"
  by (simp add: ustr_def py_split_def py_isspace_def count_words_def)

text \<open>
  Claim C5, amended. On the input of the first scenario \<open>clean_comment\<close> returns the
  text \<open>love amazing\<close> with 6 words before and 2 words after, given what the libraries
  do on this input: no contraction and no entity is found in it, the emoji is replaced
  by a space, the tokenizer splits the filtered text into its four words, and of these
  \<open>i\<close> and \<open>this\<close> are in the stopword corpus while \<open>love\<close> and \<open>amazing\<close> are not.
\<close>

theorem scenario1_result:
  assumes "contractions_fix L scenario1 = scenario1"
    and "html_unescape L scenario1 = scenario1"
    and "emoji_replace_emoji L (ustr ''I love this! '' @ [128525] @ ustr ''   Amazing'') [32] =
      ustr ''I love this!     Amazing''"
    and "word_tokenize L (ustr ''i love this   amazing'') =
      [ustr ''i'', ustr ''love'', ustr ''this'', ustr ''amazing'']"
    and "ustr ''i'' \<in> set (stopwords_english L)" and "ustr ''this'' \<in> set (stopwords_english L)"
    and "ustr ''love'' \<notin> set (stopwords_english L)"
    and "ustr ''amazing'' \<notin> set (stopwords_english L)"
  shows "clean_comment L scenario1 = (ustr ''love amazing'', 6, 2)"
proof -
  have "remove_emojis L (remove_html_tags L (expand_contractions_text L scenario1)) =
      ustr ''I love this!     Amazing''"
    by (simp only: scenario1_expand [OF assms(1)] scenario1_tags [OF assms(2)] remove_emojis_def
        assms(3))
  then have "remove_stopwords L (remove_symbols (lowercase_text L (early_stages L scenario1))) =
      ustr ''love amazing''"
    by (simp only: early_stages_def scenario1_collapse scenario1_lower
        scenario1_filter [OF assms(4-8)])
  then have "fst (clean_comment L scenario1) = ustr ''love amazing''"
    by (simp only: clean_text_unfold scenario1_squeeze)
  moreover have "snd (clean_comment L scenario1) =
      (count_words scenario1, count_words (fst (clean_comment L scenario1)))"
    by (simp add: clean_comment_def Let_def)
  ultimately show ?thesis
    by (simp add: prod_eq_iff scenario1_words scenario1_squeeze)
qed

theorem scenario1_result_witness:
  "contractions_fix sample_libs scenario1 = scenario1 \<and>
   html_unescape sample_libs scenario1 = scenario1 \<and>
   emoji_replace_emoji sample_libs (ustr ''I love this! '' @ [128525] @ ustr ''   Amazing'') [32] =
     ustr ''I love this!     Amazing'' \<and>
   word_tokenize sample_libs (ustr ''i love this   amazing'') =
     [ustr ''i'', ustr ''love'', ustr ''this'', ustr ''amazing''] \<and>
   ustr ''i'' \<in> set (stopwords_english sample_libs) \<and>
   ustr ''this'' \<in> set (stopwords_english sample_libs) \<and>
   ustr ''love'' \<notin> set (stopwords_english sample_libs) \<and>
   ustr ''amazing'' \<notin> set (stopwords_english sample_libs) \<and>
   clean_comment sample_libs scenario1 = (ustr ''love amazing'', 6, 2)"
proof -
  have a: "contractions_fix sample_libs scenario1 = scenario1" by (rule sample_fix)
  have b: "html_unescape sample_libs scenario1 = scenario1" by (rule sample_unescape)
  have c: "emoji_replace_emoji sample_libs (ustr ''I love this! '' @ [128525] @ ustr ''   Amazing'') [32] =
     ustr ''I love this!     Amazing''"
    by (simp add: sample_emoji sample_replace_emoji_def ustr_def)
  have d: "word_tokenize sample_libs (ustr ''i love this   amazing'') =
     [ustr ''i'', ustr ''love'', ustr ''this'', ustr ''amazing'']"
    by (simp add: sample_tokens py_split_def ustr_def py_isspace_def)
  have e: "ustr ''i'' \<in> set (stopwords_english sample_libs)"
    and f: "ustr ''this'' \<in> set (stopwords_english sample_libs)"
    and g: "ustr ''love'' \<notin> set (stopwords_english sample_libs)"
    and h: "ustr ''amazing'' \<notin> set (stopwords_english sample_libs)"
    by (simp_all add: sample_stopwords ustr_def)
  show ?thesis using scenario1_result [OF a b c d e f g h] a b c d e f g h by simp
qed

text \<open>
  The raw input of the first scenario has six whitespace-separated words (the emoji and
  the tag are words of their own), so the count before cleaning is not 5. The count is
  taken before any library is called.
\<close>

theorem scenario1_words_before:
  "count_words scenario1 = 6 \<and> fst (snd (clean_comment sample_libs scenario1)) \<noteq> 5"
  by (simp add: clean_comment_def Let_def scenario1_words)

section \<open>A second pass over a cleaned text\<close>

lemma first_pass_words:
  assumes "lower_table_ok L" and "tokenizer_plain L"
  shows "\<exists>K. fst (clean_comment L s) = py_join [32] K \<and>
     (\<forall>w\<in>set K. w \<noteq> [] \<and> (\<forall>c\<in>set w. is_ascii_lower c) \<and>
        (w \<in> negation_words \<or> w \<notin> set (stopwords_english L)))"
proof -
  let ?x = "remove_symbols (lowercase_text L (early_stages L s))"
  let ?K = "filter (\<lambda>w. w \<in> negation_words \<or> w \<notin> set (stopwords_english L)) (word_tokenize L ?x)"
  have "plain ?x" using assms(1) by (rule filter_input_plain)
  then have "\<forall>w\<in>set (word_tokenize L ?x). w \<noteq> [] \<and> (\<forall>c\<in>set w. is_ascii_lower c)"
    using assms(2) unfolding tokenizer_plain_def by blast
  then have K: "\<forall>w\<in>set ?K. w \<noteq> [] \<and> (\<forall>c\<in>set w. is_ascii_lower c)"
    by auto
  then have "\<forall>w\<in>set ?K. w \<noteq> [] \<and> (\<forall>c\<in>set w. \<not> py_isspace c)"
    using lower_not_space by blast
  then have "py_split (py_join [32] ?K) = ?K" by (rule py_split_join_words)
  then have "fst (clean_comment L s) = py_join [32] ?K"
    by (simp add: clean_text_unfold remove_stopwords_join)
  moreover have "\<forall>w\<in>set ?K. w \<noteq> [] \<and> (\<forall>c\<in>set w. is_ascii_lower c) \<and>
      (w \<in> negation_words \<or> w \<notin> set (stopwords_english L))"
    using K by simp
  ultimately show ?thesis by blast
qed

lemma lowercase_text_id:
  "\<forall>c\<in>set t. is_ascii_lower c \<or> c = 32 \<Longrightarrow> lowercase_text L t = t"
  by (simp add: lowercase_text_def lower_from_id)

text \<open>
  Claim C4, amended. Let \<open>c\<close> be the cleaned text of a first pass. If the four stages
  that run before lowercasing leave \<open>c\<close> as it is and the tokenizer splits \<open>c\<close> at its
  spaces, the second pass returns \<open>c\<close>; this is under the assumptions that lowercasing
  writes no ASCII capital and that the tokenizer returns words of small letters on a
  plain text.
\<close>

theorem second_pass_fixed_point:
  assumes "lower_table_ok L" and "tokenizer_plain L"
    and "early_stages L (fst (clean_comment L s)) = fst (clean_comment L s)"
    and "word_tokenize L (fst (clean_comment L s)) = py_split (fst (clean_comment L s))"
  shows "fst (clean_comment L (fst (clean_comment L s))) = fst (clean_comment L s)"
proof -
  let ?c = "fst (clean_comment L s)"
  from first_pass_words [OF assms(1,2), of s] obtain K where
    c: "?c = py_join [32] K" and
    K: "\<forall>w\<in>set K. w \<noteq> [] \<and> (\<forall>c\<in>set w. is_ascii_lower c) \<and>
        (w \<in> negation_words \<or> w \<notin> set (stopwords_english L))"
    by blast
  have chars: "\<forall>ch\<in>set ?c. is_ascii_lower ch \<or> ch = 32"
    unfolding c using join_chars [of K] K by auto
  have "\<forall>w\<in>set K. w \<noteq> [] \<and> (\<forall>c\<in>set w. \<not> py_isspace c)"
    using K lower_not_space by blast
  then have split: "py_split ?c = K" unfolding c by (rule py_split_join_words)
  have keep: "filter (\<lambda>w. w \<in> negation_words \<or> w \<notin> set (stopwords_english L)) K = K"
    using K by (intro filter_True) blast
  have "remove_symbols (lowercase_text L (early_stages L ?c)) = ?c"
    by (simp only: assms(3) lowercase_text_id [OF chars] remove_symbols_id [OF chars])
  then have "fst (clean_comment L ?c) =
      py_join [32] (py_split (remove_stopwords L ?c))"
    by (simp only: clean_text_unfold [of L ?c])
  also have "remove_stopwords L ?c = py_join [32] K"
    by (simp only: remove_stopwords_join assms(4) split keep)
  also have "py_join [32] (py_split (py_join [32] K)) = ?c"
    using split c by simp
  finally show ?thesis .
qed

lemma sample_plain: "tokenizer_plain sample_libs"
  unfolding tokenizer_plain_def sample_tokens
proof (intro allI impI ballI)
  fix s w assume "plain s" and w: "w \<in> set (py_split s)"
  from py_split_words [OF w] have "w \<noteq> []" "\<forall>c\<in>set w. \<not> py_isspace c" "set w \<subseteq> set s"
    by auto
  with \<open>plain s\<close> show "w \<noteq> [] \<and> (\<forall>c\<in>set w. is_ascii_lower c)"
    by (auto simp: plain_def)
qed

lemma sample_early: "early_stages sample_libs (ustr ''was not good'') = ustr ''was not good''"
  by (simp add: early_stages_def expand_contractions_text_def remove_html_tags_def
      remove_emojis_def sample_fix sample_unescape sample_emoji sample_replace_emoji_def ustr_def)

theorem second_pass_fixed_point_witness:
  "lower_table_ok sample_libs \<and> tokenizer_plain sample_libs \<and>
   fst (clean_comment sample_libs (ustr ''It was  NOT good!'')) = ustr ''was not good'' \<and>
   early_stages sample_libs (ustr ''was not good'') = ustr ''was not good'' \<and>
   word_tokenize sample_libs (ustr ''was not good'') = py_split (ustr ''was not good'') \<and>
   fst (clean_comment sample_libs (ustr ''was not good'')) = ustr ''was not good''"
proof -
  have c: "fst (clean_comment sample_libs (ustr ''It was  NOT good!'')) = ustr ''was not good''"
    by (simp add: sample_run)
  have e: "early_stages sample_libs (fst (clean_comment sample_libs (ustr ''It was  NOT good!''))) =
      fst (clean_comment sample_libs (ustr ''It was  NOT good!''))"
    by (simp only: c sample_early)
  have t: "word_tokenize sample_libs (fst (clean_comment sample_libs (ustr ''It was  NOT good!''))) =
      py_split (fst (clean_comment sample_libs (ustr ''It was  NOT good!'')))"
    by (simp only: sample_tokens)
  show ?thesis
    using second_pass_fixed_point [OF sample_lower_table_ok sample_plain e t]
      sample_lower_table_ok sample_plain sample_early
    by (simp add: c sample_tokens)
qed

text \<open>
  Collapsing compares code points before they are lowercased. Whatever the libraries
  are, if they leave \<open>aAa\<close> and \<open>aaa\<close> alone and neither \<open>aaa\<close> nor \<open>aa\<close> is a stopword,
  the first text is cleaned to \<open>aaa\<close> and that one to \<open>aa\<close>.
\<close>

lemma second_pass_changes_any:
  assumes "contractions_fix L (ustr ''aAa'') = ustr ''aAa''"
    and "contractions_fix L (ustr ''aaa'') = ustr ''aaa''"
    and "html_unescape L (ustr ''aAa'') = ustr ''aAa''"
    and "html_unescape L (ustr ''aaa'') = ustr ''aaa''"
    and "emoji_replace_emoji L (ustr ''aAa'') [32] = ustr ''aAa''"
    and "emoji_replace_emoji L (ustr ''aaa'') [32] = ustr ''aaa''"
    and "word_tokenize L (ustr ''aaa'') = [ustr ''aaa'']"
    and "word_tokenize L (ustr ''aa'') = [ustr ''aa'']"
    and "ustr ''aaa'' \<notin> set (stopwords_english L)"
    and "ustr ''aa'' \<notin> set (stopwords_english L)"
  shows "fst (clean_comment L (ustr ''aAa'')) = ustr ''aaa'' \<and>
         fst (clean_comment L (ustr ''aaa'')) = ustr ''aa''"
  using assms
  by (simp add: clean_text_unfold early_stages_def expand_contractions_text_def
      remove_html_tags_def remove_emojis_def lowercase_text_def lower_cp_def remove_symbols_def
      is_ascii_upper_def is_ascii_lower_def remove_stopwords_join py_split_def py_isspace_def
      ustr_def)

text \<open>
  So a second pass is not always a no-op: on the sample instance the cleaned text of
  \<open>aAa\<close> is \<open>aaa\<close>, and cleaning it again gives \<open>aa\<close>.
\<close>

theorem second_pass_changes:
  "fst (clean_comment sample_libs (ustr ''aAa'')) = ustr ''aaa'' \<and>
   fst (clean_comment sample_libs (ustr ''aaa'')) = ustr ''aa'' \<and>
   fst (clean_comment sample_libs (fst (clean_comment sample_libs (ustr ''aAa'')))) \<noteq>
     fst (clean_comment sample_libs (ustr ''aAa''))"
proof -
  have a: "fst (clean_comment sample_libs (ustr ''aAa'')) = ustr ''aaa''"
    by (simp add: eval_simps)
  have b: "fst (clean_comment sample_libs (ustr ''aaa'')) = ustr ''aa''"
    by (simp add: eval_simps)
  have "ustr ''aa'' \<noteq> ustr ''aaa''" by (simp add: ustr_def)
  with a b show ?thesis by simp
qed

section \<open>The stages of the pipeline\<close>

lemma normalize_by_runs:
  "normalize_repeated_characters s = expand_runs (map collapse_run (runs s))"
  using normalize_expand [OF runs_maximal, of s] by (simp add: runs_expand)

lemma lower_from_index:
  "drop i t = cs \<Longrightarrow>
     lower_from L t i cs = concat (map (\<lambda>j. lower_cp L t j (t ! j)) [i..<length t])"
proof (induction cs arbitrary: i)
  case Nil
  then show ?case by simp
next
  case (Cons c cs)
  have i: "i < length t" using Cons.prems by (cases "i < length t") auto
  have c: "t ! i = c" using Cons.prems i by (metis hd_drop_conv_nth list.sel(1))
  have r: "drop (Suc i) t = cs" using Cons.prems by (metis drop_Suc tl_drop list.sel(3))
  show ?case using Cons.IH [OF r] i c by (simp add: upt_conv_Cons)
qed

lemma lowercase_text_index:
  "lowercase_text L t =
     concat (map (\<lambda>j. if is_ascii_upper (t ! j) then [t ! j + 32]
                        else if t ! j < 128 then [t ! j] else lower_nonascii L t j)
       [0..<length t])"
  by (simp add: lowercase_text_def lower_from_index lower_cp_def)

lemma kept_words:
  "filter (\<lambda>w. w \<in> negation_words \<or> w \<notin> set (stopwords_english L)) ws =
     filter (\<lambda>w. w \<notin> set (stopwords_english L) - negation_words) ws"
  by (rule filter_cong) auto

lemma treebank_tokens: "word_tokenize treebank_libs = treebank_tokenize"
  by (simp add: treebank_libs_def)

lemma treebank_fix: "contractions_fix treebank_libs s = s"
  by (simp add: treebank_libs_def sample_libs_def)

lemma treebank_unescape: "html_unescape treebank_libs s = s"
  by (simp add: treebank_libs_def sample_libs_def)

lemma treebank_lower: "lower_nonascii treebank_libs s i = [s ! i]"
  by (simp add: treebank_libs_def sample_libs_def)

lemma treebank_emoji: "emoji_replace_emoji treebank_libs = sample_replace_emoji"
  by (simp add: treebank_libs_def sample_libs_def)

lemma treebank_stopwords:
  "stopwords_english treebank_libs = stopwords_english sample_libs"
  by (simp add: treebank_libs_def)

lemmas treebank_simps =
  clean_comment_def Let_def count_words_def py_split_def ustr_def py_isspace_def
  expand_contractions_text_def remove_html_tags_def remove_emojis_def lowercase_text_def
  lower_cp_def is_ascii_upper_def is_ascii_lower_def remove_symbols_def remove_stopwords_def
  stop_words_def negation_words_unfold treebank_fix treebank_unescape treebank_lower
  treebank_emoji treebank_tokens treebank_stopwords sample_stopwords sample_replace_emoji_def
  treebank_tokenize_def treebank_word_def

lemma every_stage_run:
  "clean_comment treebank_libs (ustr ''I  can not <b>stoooop</b> '' @ [128525] @ ustr '' NOW!'') =
     (ustr ''not stoop now'', 6, 3)"
  by (simp add: treebank_simps)

text \<open>
  Claim C2. The text that \<open>clean_comment\<close> returns is built from the input by these
  steps, in this order: the contractions are expanded by the library and every
  \<open>can not\<close> is rewritten to \<open>cannot\<close>; the entities are decoded by the library and
  every tag is replaced by a space; the emoji are replaced by spaces; every run of three
  or more equal characters other than newlines is cut to two; the code points are
  lowercased; every code point that is neither an ASCII letter nor whitespace is
  replaced by a space; the tokens that are stopwords and not negation words are dropped
  and the others joined by spaces; the whitespace is squeezed. The two counts are the
  numbers of whitespace-separated words of the raw input and of the cleaned text. The
  equations after the first pin the string operations on inputs where each of them has
  work to do, and the last one runs all the stages on one input.
\<close>

theorem clean_comment_postcondition:
  "clean_comment L s =
     (let expanded = str_replace (ustr ''can not'') (ustr ''cannot'') (contractions_fix L s);
          stripped = sub_tags (html_unescape L expanded);
          no_emoji = emoji_replace_emoji L stripped [32];
          collapsed = expand_runs (map collapse_run (runs no_emoji));
          lowered = concat (map (\<lambda>j. if is_ascii_upper (collapsed ! j) then [collapsed ! j + 32]
                                       else if collapsed ! j < 128 then [collapsed ! j]
                                       else lower_nonascii L collapsed j)
                      [0..<length collapsed]);
          letters = map (\<lambda>c. if is_ascii_lower c \<or> is_ascii_upper c \<or> py_isspace c then c
                               else 32) lowered;
          kept = filter (\<lambda>w. w \<notin> set (stopwords_english L) - negation_words)
                   (word_tokenize L letters);
          cleanedText = py_join [32] (py_split (py_join [32] kept))
      in (cleanedText, length (py_split s), length (py_split cleanedText))) \<and>
   str_replace (ustr ''can not'') (ustr ''cannot'') (ustr ''i can not go'') = ustr ''i cannot go'' \<and>
   sub_tags (ustr ''a<br>b </p>c'') = ustr ''a b  c'' \<and>
   py_split (ustr '' good   quality '') = [ustr ''good'', ustr ''quality''] \<and>
   py_join [32] [ustr ''good'', ustr ''quality''] = ustr ''good quality'' \<and>
   clean_comment treebank_libs (ustr ''I  can not <b>stoooop</b> '' @ [128525] @ ustr '' NOW!'') =
     (ustr ''not stoop now'', 6, 3)"
proof -
  have "clean_comment L s =
     (let expanded = str_replace (ustr ''can not'') (ustr ''cannot'') (contractions_fix L s);
          stripped = sub_tags (html_unescape L expanded);
          no_emoji = emoji_replace_emoji L stripped [32];
          collapsed = expand_runs (map collapse_run (runs no_emoji));
          lowered = concat (map (\<lambda>j. if is_ascii_upper (collapsed ! j) then [collapsed ! j + 32]
                                       else if collapsed ! j < 128 then [collapsed ! j]
                                       else lower_nonascii L collapsed j)
                      [0..<length collapsed]);
          letters = map (\<lambda>c. if is_ascii_lower c \<or> is_ascii_upper c \<or> py_isspace c then c
                               else 32) lowered;
          kept = filter (\<lambda>w. w \<notin> set (stopwords_english L) - negation_words)
                   (word_tokenize L letters);
          cleanedText = py_join [32] (py_split (py_join [32] kept))
      in (cleanedText, length (py_split s), length (py_split cleanedText)))"
    by (simp only: clean_comment_def Let_def count_words_def expand_contractions_text_def
        remove_html_tags_def remove_emojis_def normalize_by_runs lowercase_text_index
        remove_symbols_def remove_stopwords_join kept_words)
  moreover have "str_replace (ustr ''can not'') (ustr ''cannot'') (ustr ''i can not go'') = ustr ''i cannot go''"
    by (simp add: ustr_def)
  moreover have "sub_tags (ustr ''a<br>b </p>c'') = ustr ''a b  c''"
    by (simp add: ustr_def)
  moreover have "py_split (ustr '' good   quality '') = [ustr ''good'', ustr ''quality'']"
    by (simp add: ustr_def py_split_def py_isspace_def)
  moreover have "py_join [32] [ustr ''good'', ustr ''quality''] = ustr ''good quality''"
    by (simp add: ustr_def)
  ultimately show ?thesis using every_stage_run by blast
qed

section \<open>The word cannot\<close>

text \<open>
  Claim C1 fails on the code. The word \<open>cannot\<close> is in the negation lexicon and is a
  word of the text \<open>cannot believe it\<close>, but the tokenizer hands the loop the two tokens
  \<open>can\<close> and \<open>not\<close>, of which \<open>can\<close> is a stopword: the filter returns
  \<open>not believe\<close>, and so does the pipeline, also when the input spells \<open>can not\<close> and
  \<open>expand_contractions_text\<close> has joined the two words.
\<close>

theorem cannot_not_preserved:
  "ustr ''cannot'' \<in> negation_words \<and>
   ustr ''cannot'' \<in> set (py_split (ustr ''cannot believe it'')) \<and>
   word_tokenize treebank_libs (ustr ''cannot believe it'') =
     [ustr ''can'', ustr ''not'', ustr ''believe'', ustr ''it''] \<and>
   remove_stopwords treebank_libs (ustr ''cannot believe it'') = ustr ''not believe'' \<and>
   ustr ''cannot'' \<notin> set (py_split (remove_stopwords treebank_libs (ustr ''cannot believe it''))) \<and>
   clean_comment treebank_libs (ustr ''cannot believe it'') = (ustr ''not believe'', 3, 2) \<and>
   clean_comment treebank_libs (ustr ''can not believe it'') = (ustr ''not believe'', 4, 2)"
proof -
  have a: "ustr ''cannot'' \<in> negation_words"
    by (simp add: negation_words_unfold ustr_def)
  have b: "ustr ''cannot'' \<in> set (py_split (ustr ''cannot believe it''))"
    by (simp add: py_split_def ustr_def py_isspace_def)
  have c: "word_tokenize treebank_libs (ustr ''cannot believe it'') =
      [ustr ''can'', ustr ''not'', ustr ''believe'', ustr ''it'']"
    by (simp add: treebank_tokens treebank_tokenize_def treebank_word_def py_split_def ustr_def
        py_isspace_def)
  have d: "remove_stopwords treebank_libs (ustr ''cannot believe it'') = ustr ''not believe''"
    by (simp add: treebank_simps)
  have e: "ustr ''cannot'' \<notin> set (py_split (ustr ''not believe''))"
    by (simp add: py_split_def ustr_def py_isspace_def)
  have f: "clean_comment treebank_libs (ustr ''cannot believe it'') = (ustr ''not believe'', 3, 2)"
    by (simp add: treebank_simps)
  have g: "clean_comment treebank_libs (ustr ''can not believe it'') = (ustr ''not believe'', 4, 2)"
    by (simp add: treebank_simps)
  show ?thesis using a b c d e f g by simp
qed

end
